theory Spec2Isabelle
  imports Complex_Main "HOL-Library.Sublist"
begin

section \<open>Chat analysis dashboard: the loader and the filter/aggregate pipeline\<close>

text \<open>
  A shallow embedding of \<^verbatim>\<open>chat_analyzer.py\<close>. A data frame is the list of its rows, in
  index order. A Python exception is a value of \<open>py_error\<close>; a function that can raise
  returns \<open>py_error + 'a\<close>, with \<open>Inl\<close> for the exception.

  Python strings are modelled as HOL strings, read as sequences of code points below 256.
  Timestamps are integers: nanoseconds since 1970-01-01T00:00:00 UTC. Calendar dates are
  integers: days since 1970-01-01.
\<close>

subsection \<open>Exceptions and the input records\<close>

datatype py_error = KeyError | ValueError | ZeroDivisionError | ReError

text \<open>
  One key of a JSON message object: the key is not there, it is \<^verbatim>\<open>null\<close>, or it holds a
  string. \<^verbatim>\<open>pd.DataFrame(data)\<close> has a column for a key as soon as one record carries it.
\<close>

datatype jfield = Absent | JNull | JStr string

record raw_message =
  r_timestamp :: jfield
  r_author :: string
  r_content :: "string option"
  r_type :: jfield

text \<open>A row of the data frame that \<^verbatim>\<open>convert_to_df\<close> returns.\<close>

record message =
  timestamp :: int
  author :: string
  content :: "string option"
  mtype :: string

subsection \<open>The library: timestamps\<close>

text \<open>
  \<^verbatim>\<open>pd.to_datetime(..., format='ISO8601', errors='coerce', utc=True)\<close> works cell by cell and,
  with \<^verbatim>\<open>errors='coerce'\<close>, gives NaT (here \<open>None\<close>) for a cell it cannot read instead of
  raising. The model computes it on the strings of the shape \<^verbatim>\<open>YYYY-MM-DDTHH:MM:SSZ\<close> with
  a year from 1678 to 2261, on the empty string and on strings that start with a letter
  (never a timestamp, the words \<^verbatim>\<open>now\<close> and \<^verbatim>\<open>today\<close> set aside). On every other string it is
  the parameter \<open>to_datetime_ext\<close>. In the
  same way \<open>re_compile_ext\<close> stands for Python's \<^verbatim>\<open>re.compile(pat, re.IGNORECASE)\<close> outside
  the patterns the model computes. \<open>np_round_tie_ext\<close> and \<open>py_round_tie_ext\<close> stand for
  \<^verbatim>\<open>round(x, 1)\<close> on a number that lies halfway between two one-decimal numbers: the first
  for a numpy \<^verbatim>\<open>float64\<close> (line 114), the second for a Python \<^verbatim>\<open>float\<close> (line 117), which
  round such numbers differently.
\<close>

record pylib =
  to_datetime_ext :: "string \<Rightarrow> int option"
  re_compile_ext :: "string \<Rightarrow> py_error + (string \<Rightarrow> bool)"
  np_round_tie_ext :: "rat \<Rightarrow> rat"
  py_round_tie_ext :: "rat \<Rightarrow> rat"

definition digit_val :: "char \<Rightarrow> nat option" where
  "digit_val c = (let n = (of_char c :: nat) in if 48 \<le> n \<and> n \<le> 57 then Some (n - 48) else None)"

fun num_acc :: "nat \<Rightarrow> string \<Rightarrow> nat option" where
  "num_acc a [] = Some a"
| "num_acc a (c # cs) = (case digit_val c of None \<Rightarrow> None | Some d \<Rightarrow> num_acc (10 * a + d) cs)"

definition num :: "string \<Rightarrow> nat option" where
  "num s = (if s = [] then None else num_acc 0 s)"

text \<open>The code point of a character, with an ASCII capital taken to its small letter.\<close>

definition lower :: "char \<Rightarrow> nat" where
  "lower c = (let n = (of_char c :: nat) in if 65 \<le> n \<and> n \<le> 90 then n + 32 else n)"

definition is_letter :: "char \<Rightarrow> bool" where
  "is_letter c = (let n = (of_char c :: nat) in (65 \<le> n \<and> n \<le> 90) \<or> (97 \<le> n \<and> n \<le> 122))"

definition is_leap :: "nat \<Rightarrow> bool" where
  "is_leap y = (y mod 4 = 0 \<and> (y mod 400 = 0 \<or> y mod 100 \<noteq> 0))"

definition days_in_month :: "nat \<Rightarrow> nat \<Rightarrow> nat" where
  "days_in_month y m =
     (if m = 2 then (if is_leap y then 29 else 28)
      else if m = 4 \<or> m = 6 \<or> m = 9 \<or> m = 11 then 30 else 31)"

text \<open>Days from 1970-01-01 to the given day of the proleptic Gregorian calendar.\<close>

definition days_from_civil :: "int \<Rightarrow> int \<Rightarrow> int \<Rightarrow> int" where
  "days_from_civil y m d =
     (let y' = (if m \<le> 2 then y - 1 else y);
          era = y' div 400;
          yoe = y' - era * 400;
          doy = (153 * (if m > 2 then m - 3 else m + 9) + 2) div 5 + d - 1;
          doe = yoe * 365 + yoe div 4 - yoe div 100 + doy
      in era * 146097 + doe - 719468)"

definition ns_per_second :: int where
  "ns_per_second = 1000000000"

definition ns_per_day :: int where
  "ns_per_day = 86400 * ns_per_second"

definition iso_shape :: "string \<Rightarrow> bool" where
  "iso_shape s =
     (length s = 20 \<and> s ! 4 = CHR ''-'' \<and> s ! 7 = CHR ''-'' \<and> s ! 10 = CHR ''T'' \<and>
      s ! 13 = CHR '':'' \<and> s ! 16 = CHR '':'' \<and> s ! 19 = CHR ''Z'')"

definition iso_fields :: "string \<Rightarrow> (nat \<times> nat \<times> nat \<times> nat \<times> nat \<times> nat) option" where
  "iso_fields s =
     (if \<not> iso_shape s then None
      else case (num (take 4 s), num (take 2 (drop 5 s)), num (take 2 (drop 8 s)),
                 num (take 2 (drop 11 s)), num (take 2 (drop 14 s)), num (take 2 (drop 17 s))) of
             (Some y, Some mo, Some d, Some h, Some mi, Some sec) \<Rightarrow> Some (y, mo, d, h, mi, sec)
           | _ \<Rightarrow> None)"

definition iso_instant :: "nat \<times> nat \<times> nat \<times> nat \<times> nat \<times> nat \<Rightarrow> int option" where
  "iso_instant f =
     (case f of (y, mo, d, h, mi, sec) \<Rightarrow>
        if 1 \<le> mo \<and> mo \<le> 12 \<and> 1 \<le> d \<and> d \<le> days_in_month y mo \<and> h < 24 \<and> mi < 60 \<and> sec < 60
        then Some (days_from_civil (int y) (int mo) (int d) * ns_per_day
                   + (int h * 3600 + int mi * 60 + int sec) * ns_per_second)
        else None)"

definition parse_iso8601 :: "pylib \<Rightarrow> string \<Rightarrow> int option" where
  "parse_iso8601 lib s =
     (if s = [] then None
      else if is_letter (hd s) \<and> map lower s \<noteq> map lower ''now'' \<and> map lower s \<noteq> map lower ''today''
      then None
      else case iso_fields s of
             Some (y, rest) \<Rightarrow>
               if 1678 \<le> y \<and> y \<le> 2261 then iso_instant (y, rest) else to_datetime_ext lib s
           | None \<Rightarrow> to_datetime_ext lib s)"

definition to_datetime :: "pylib \<Rightarrow> jfield \<Rightarrow> int option" where
  "to_datetime lib v = (case v of Absent \<Rightarrow> None | JNull \<Rightarrow> None | JStr s \<Rightarrow> parse_iso8601 lib s)"

subsection \<open>\<^verbatim>\<open>convert_to_df\<close>\<close>

text \<open>\<^verbatim>\<open>df[col]\<close> raises \<^verbatim>\<open>KeyError\<close> when no record of the input carries the key.\<close>

definition has_column :: "(raw_message \<Rightarrow> jfield) \<Rightarrow> raw_message list \<Rightarrow> bool" where
  "has_column col data = list_ex (\<lambda>r. col r \<noteq> Absent) data"

text \<open>\<^verbatim>\<open>df.dropna(subset=['timestamp'])\<close>, on rows paired with their converted timestamp.\<close>

definition dropna :: "(int option \<times> raw_message) list \<Rightarrow> (int \<times> raw_message) list" where
  "dropna rows = List.map_filter (\<lambda>(t, r). case t of None \<Rightarrow> None | Some i \<Rightarrow> Some (i, r)) rows"

definition fillna :: "string \<Rightarrow> jfield \<Rightarrow> string" where
  "fillna dflt v = (case v of JStr s \<Rightarrow> s | _ \<Rightarrow> dflt)"

text \<open>
  The result is \<open>Inl e\<close> when the function raises, \<open>Inr None\<close> when it returns \<^verbatim>\<open>None\<close> and
  \<open>Inr (Some df)\<close> when it returns a frame. Inside \<^verbatim>\<open>try\<close> only \<^verbatim>\<open>df['timestamp']\<close> can raise
  (the conversion coerces); the handler reads \<^verbatim>\<open>df['timestamp'].head()\<close> once more before
  its \<^verbatim>\<open>return None\<close>. \<^verbatim>\<open>df['type']\<close> is read outside \<^verbatim>\<open>try\<close>.
\<close>

definition convert_to_df :: "pylib \<Rightarrow> raw_message list \<Rightarrow> py_error + message list option" where
  "convert_to_df lib data =
     (if \<not> has_column r_timestamp data then
        (if \<not> has_column r_timestamp data then Inl KeyError else Inr None)
      else
        let df = dropna (map (\<lambda>r. (to_datetime lib (r_timestamp r), r)) data)
        in if \<not> has_column r_type data then Inl KeyError
           else Inr (Some (map (\<lambda>(t, r). \<lparr>timestamp = t, author = r_author r,
                                          content = r_content r,
                                          mtype = fillna ''Default'' (r_type r)\<rparr>) df)))"

subsection \<open>Dates, presets and the date range\<close>

text \<open>\<^verbatim>\<open>Timestamp.date()\<close> of a UTC instant: the day the instant falls in.\<close>

definition ts_date :: "int \<Rightarrow> int" where
  "ts_date t = t div ns_per_day"

text \<open>
  What \<^verbatim>\<open>df['timestamp'].min().date()\<close> can be: the minimum of an empty column is NaT, and
  \<^verbatim>\<open>NaT.date()\<close> is NaT again (it does not raise).
\<close>

datatype pdate = NaT | Date int

fun series_min :: "int list \<Rightarrow> int option" where
  "series_min [] = None"
| "series_min (x # xs) = (case series_min xs of None \<Rightarrow> Some x | Some m \<Rightarrow> Some (min x m))"

fun series_max :: "int list \<Rightarrow> int option" where
  "series_max [] = None"
| "series_max (x # xs) = (case series_max xs of None \<Rightarrow> Some x | Some m \<Rightarrow> Some (max x m))"

definition min_date :: "message list \<Rightarrow> pdate" where
  "min_date df = (case series_min (map timestamp df) of None \<Rightarrow> NaT | Some t \<Rightarrow> Date (ts_date t))"

definition max_date :: "message list \<Rightarrow> pdate" where
  "max_date df = (case series_max (map timestamp df) of None \<Rightarrow> NaT | Some t \<Rightarrow> Date (ts_date t))"

text \<open>\<^verbatim>\<open>d - pd.Timedelta(days=n)\<close>; with NaT the result is NaT.\<close>

definition minus_days :: "pdate \<Rightarrow> int \<Rightarrow> pdate" where
  "minus_days d n = (case d of NaT \<Rightarrow> NaT | Date k \<Rightarrow> Date (k - n))"

datatype preset = Custom | Last7 | Last30 | Last90 | AllTime

text \<open>
  What the user chose in the sidebar. \<open>custom_start\<close> and \<open>custom_end\<close> are the dates chosen
  in the two \<^verbatim>\<open>st.date_input\<close> widgets, read only when the preset is \<open>Custom\<close>.
\<close>

record ui_state =
  ui_preset :: preset
  custom_start :: int
  custom_end :: int
  ui_type :: string
  ui_author :: string
  ui_search :: string

text \<open>
  \<^verbatim>\<open>st.date_input(label, value, min_value=min_date, max_value=max_date)\<close>: it raises
  \<^verbatim>\<open>ValueError\<close> when a bound is NaT, and the date it holds is one the widget offers, so the
  chosen date is taken between the two bounds.
\<close>

definition date_input :: "pdate \<Rightarrow> pdate \<Rightarrow> int \<Rightarrow> py_error + pdate" where
  "date_input mn mx chosen =
     (case (mn, mx) of
        (Date lo, Date hi) \<Rightarrow> Inr (Date (max lo (min hi chosen)))
      | _ \<Rightarrow> Inl ValueError)"

definition preset_dates :: "ui_state \<Rightarrow> pdate \<Rightarrow> pdate \<Rightarrow> py_error + pdate \<times> pdate" where
  "preset_dates ui mn mx =
     (case ui_preset ui of
        Last7 \<Rightarrow> Inr (minus_days mx 7, mx)
      | Last30 \<Rightarrow> Inr (minus_days mx 30, mx)
      | Last90 \<Rightarrow> Inr (minus_days mx 90, mx)
      | AllTime \<Rightarrow> Inr (mn, mx)
      | Custom \<Rightarrow>
          (case date_input mn mx (custom_start ui) of
             Inl err \<Rightarrow> Inl err
           | Inr s \<Rightarrow>
               (case date_input mn mx (custom_end ui) of
                  Inl err \<Rightarrow> Inl err
                | Inr e \<Rightarrow> Inr (s, e))))"

text \<open>
  \<^verbatim>\<open>len(pd.date_range(start_date, end_date))\<close>: a \<^verbatim>\<open>ValueError\<close> when an end point is NaT,
  no day at all when the range is inverted.
\<close>

definition date_range :: "pdate \<Rightarrow> pdate \<Rightarrow> py_error + nat" where
  "date_range s e =
     (case (s, e) of
        (Date a, Date b) \<Rightarrow> Inr (if b < a then 0 else nat (b - a + 1))
      | _ \<Rightarrow> Inl ValueError)"

subsection \<open>The library: \<^verbatim>\<open>Series.str.contains(pat, case=False, na=False)\<close>\<close>

text \<open>
  \<^verbatim>\<open>str.contains\<close> reads \<open>pat\<close> as a regular expression (\<^verbatim>\<open>regex=True\<close> is its default): it
  compiles the pattern once, with \<^verbatim>\<open>re.IGNORECASE\<close>, and searches every cell with it. The
  model computes three classes of patterns: a pattern that starts with a quantifier does
  not compile (\<^verbatim>\<open>re.error\<close>: nothing to repeat); a pattern of ASCII characters without
  special meaning and of dots matches where the characters occur in a row, letters in
  either case, a dot standing for any character but a newline. Every other pattern is left
  to \<open>re_compile_ext\<close>.
\<close>

definition re_special :: "char \<Rightarrow> bool" where
  "re_special c = (c \<in> set ''.^$*+?{}[]|()'' \<or> c = CHR 0x5C)"

definition re_plain :: "char \<Rightarrow> bool" where
  "re_plain c = ((of_char c :: nat) < 128 \<and> \<not> re_special c)"

definition re_char_match :: "char \<Rightarrow> char \<Rightarrow> bool" where
  "re_char_match p c = (if p = CHR ''.'' then c \<noteq> CHR 0x0A else lower p = lower c)"

fun re_match_here :: "string \<Rightarrow> string \<Rightarrow> bool" where
  "re_match_here [] s = True"
| "re_match_here (p # ps) [] = False"
| "re_match_here (p # ps) (c # cs) = (re_char_match p c \<and> re_match_here ps cs)"

fun re_search :: "string \<Rightarrow> string \<Rightarrow> bool" where
  "re_search pat [] = re_match_here pat []"
| "re_search pat (c # cs) = (re_match_here pat (c # cs) \<or> re_search pat cs)"

definition re_compile :: "pylib \<Rightarrow> string \<Rightarrow> py_error + (string \<Rightarrow> bool)" where
  "re_compile lib pat =
     (if pat \<noteq> [] \<and> hd pat \<in> set ''*+?'' then Inl ReError
      else if list_all (\<lambda>c. re_plain c \<or> c = CHR ''.'') pat then Inr (re_search pat)
      else re_compile_ext lib pat)"

text \<open>A cell that is null gives \<^verbatim>\<open>na=False\<close>.\<close>

definition str_contains :: "pylib \<Rightarrow> string option list \<Rightarrow> string \<Rightarrow> py_error + bool list" where
  "str_contains lib col pat =
     (case re_compile lib pat of
        Inl e \<Rightarrow> Inl e
      | Inr f \<Rightarrow> Inr (map (\<lambda>c. case c of None \<Rightarrow> False | Some s \<Rightarrow> f s) col))"

subsection \<open>The filters\<close>

record filter_spec =
  start_date :: int
  end_date :: int
  selected_type :: string
  selected_author :: string
  search_term :: string

text \<open>Elementwise \<^verbatim>\<open>&\<close> of two boolean columns on the same index.\<close>

definition mask_and :: "bool list \<Rightarrow> bool list \<Rightarrow> bool list" where
  "mask_and m1 m2 = map2 (\<and>) m1 m2"

definition mask_df :: "pylib \<Rightarrow> filter_spec \<Rightarrow> message list \<Rightarrow> py_error + bool list" where
  "mask_df lib spec df =
     (let m0 = mask_and (map (\<lambda>r. start_date spec \<le> ts_date (timestamp r)) df)
                        (map (\<lambda>r. ts_date (timestamp r) \<le> end_date spec) df);
          m1 = (if selected_type spec \<noteq> ''All''
                then mask_and m0 (map (\<lambda>r. mtype r = selected_type spec) df) else m0);
          m2 = (if selected_author spec \<noteq> ''All''
                then mask_and m1 (map (\<lambda>r. author r = selected_author spec) df) else m1)
      in if search_term spec \<noteq> []
         then (case str_contains lib (map content df) (search_term spec) of
                 Inl e \<Rightarrow> Inl e
               | Inr c \<Rightarrow> Inr (mask_and m2 c))
         else Inr m2)"

text \<open>\<^verbatim>\<open>df[mask]\<close>: the rows whose mask entry is true, in the order of \<open>df\<close>.\<close>

definition select_rows :: "'a list \<Rightarrow> bool list \<Rightarrow> 'a list" where
  "select_rows df m = map fst (filter snd (zip df m))"

definition filtered_df :: "pylib \<Rightarrow> filter_spec \<Rightarrow> message list \<Rightarrow> py_error + message list" where
  "filtered_df lib spec df =
     (case mask_df lib spec df of Inl e \<Rightarrow> Inl e | Inr m \<Rightarrow> Inr (select_rows df m))"

subsection \<open>The top row of statistics\<close>

text \<open>
  Python's \<^verbatim>\<open>round(x, 1)\<close> works on binary floating point numbers. The model computes
  with the exact rational and gives the nearest number with one decimal place; where the
  rational lies halfway between two of them the result depends on the binary
  representation and on the kind of float, and is left to the function \<open>tie\<close>.
\<close>

definition round1 :: "(rat \<Rightarrow> rat) \<Rightarrow> rat \<Rightarrow> rat" where
  "round1 tie x =
     (let f = \<lfloor>x * 10\<rfloor>; d = x * 10 - of_int f
      in if d = 1 / 2 then tie x
         else if d < 1 / 2 then of_int f / 10 else of_int (f + 1) / 10)"

definition total_messages :: "message list \<Rightarrow> nat" where
  "total_messages fdf = length fdf"

definition replies :: "message list \<Rightarrow> nat" where
  "replies fdf = length (filter (\<lambda>r. mtype r = ''Reply'') fdf)"

text \<open>
  \<^verbatim>\<open>round(filtered_df['content'].str.len().mean(), 1)\<close>: the mean skips null cells and is
  NaN (here \<open>None\<close>) when no cell is left; rounding NaN gives NaN.
\<close>

definition avg_length :: "pylib \<Rightarrow> message list \<Rightarrow> rat option" where
  "avg_length lib fdf =
     (let lens = List.map_filter (map_option length) (map content fdf)
      in if lens = [] then None
         else Some (round1 (np_round_tie_ext lib) (of_nat (sum_list lens) / of_nat (length lens))))"

text \<open>
  \<^verbatim>\<open>round(len(filtered_df) / len(filtered_df['timestamp'].dt.date.unique()), 1)\<close>: a division
  of two Python integers, which raises when the divisor is 0.
\<close>

definition messages_per_day :: "pylib \<Rightarrow> message list \<Rightarrow> py_error + rat" where
  "messages_per_day lib fdf =
     (let n = length fdf; days = length (remdups (map (\<lambda>r. ts_date (timestamp r)) fdf))
      in if days = 0 then Inl ZeroDivisionError
         else Inr (round1 (py_round_tie_ext lib) (of_nat n / of_nat days)))"

record metrics =
  m_total :: nat
  m_replies :: nat
  m_avg_length :: "rat option"
  m_per_day :: rat

definition top_stats :: "pylib \<Rightarrow> message list \<Rightarrow> py_error + metrics" where
  "top_stats lib fdf =
     (let t = total_messages fdf; r = replies fdf; a = avg_length lib fdf
      in case messages_per_day lib fdf of
           Inl e \<Rightarrow> Inl e
         | Inr d \<Rightarrow> Inr \<lparr>m_total = t, m_replies = r, m_avg_length = a, m_per_day = d\<rparr>)"

text \<open>The filter step followed by the statistics: the subset and its aggregates.\<close>

definition apply_filters :: "pylib \<Rightarrow> filter_spec \<Rightarrow> message list \<Rightarrow> py_error + (message list \<times> metrics)" where
  "apply_filters lib spec df =
     (case filtered_df lib spec df of
        Inl e \<Rightarrow> Inl e
      | Inr fdf \<Rightarrow> (case top_stats lib fdf of Inl e \<Rightarrow> Inl e | Inr m \<Rightarrow> Inr (fdf, m)))"

subsection \<open>The script, from the load to the statistics row\<close>

datatype outcome = Stopped | Rendered "message list" metrics

definition dashboard :: "pylib \<Rightarrow> ui_state \<Rightarrow> raw_message list \<Rightarrow> py_error + outcome" where
  "dashboard lib ui data =
     (case convert_to_df lib data of
        Inl e \<Rightarrow> Inl e
      | Inr None \<Rightarrow> Inr Stopped
      | Inr (Some df) \<Rightarrow>
          (case preset_dates ui (min_date df) (max_date df) of
             Inl err \<Rightarrow> Inl err
           | Inr (s, e) \<Rightarrow>
               (case date_range s e of
                  Inl err \<Rightarrow> Inl err
                | Inr n \<Rightarrow>
                    (case (s, e) of
                       (Date a, Date b) \<Rightarrow>
                         (case apply_filters lib
                                 \<lparr>start_date = a, end_date = b, selected_type = ui_type ui,
                                  selected_author = ui_author ui, search_term = ui_search ui\<rparr> df of
                            Inl err \<Rightarrow> Inl err
                          | Inr (fdf, m) \<Rightarrow> Inr (Rendered fdf m))
                     | _ \<Rightarrow> Inl ValueError))))"

subsection \<open>Vocabulary of the statements\<close>

text \<open>\<^verbatim>\<open>re.compile(pat, re.IGNORECASE).search(s) is not None\<close>, false when \<open>pat\<close> does not compile.\<close>

definition re_matches :: "pylib \<Rightarrow> string \<Rightarrow> string \<Rightarrow> bool" where
  "re_matches lib pat s = (case re_compile lib pat of Inl e \<Rightarrow> False | Inr f \<Rightarrow> f s)"

text \<open>
  The spec's reading of the search: the content contains the search string, letters taken
  in either case.
\<close>

definition spec_contains :: "string \<Rightarrow> string \<Rightarrow> bool" where
  "spec_contains search s = sublist (map lower search) (map lower s)"

text \<open>
  The predicate of the spec (4.2): the date range, inclusive at both ends, the type and
  the author unless they are \<^verbatim>\<open>All\<close>, and the search unless it is empty, a null content
  never matching. The test on the content is the parameter \<open>contains\<close>.
\<close>

definition spec_pred :: "filter_spec \<Rightarrow> (string \<Rightarrow> bool) \<Rightarrow> message \<Rightarrow> bool" where
  "spec_pred spec contains r =
     (start_date spec \<le> ts_date (timestamp r) \<and> ts_date (timestamp r) \<le> end_date spec \<and>
      (selected_type spec \<noteq> ''All'' \<longrightarrow> mtype r = selected_type spec) \<and>
      (selected_author spec \<noteq> ''All'' \<longrightarrow> author r = selected_author spec) \<and>
      (search_term spec \<noteq> [] \<longrightarrow> (case content r of None \<Rightarrow> False | Some s \<Rightarrow> contains s)))"

text \<open>
  The filter of the spec with its three optional constraints: \<open>None\<close> is a constraint that
  is left out. A search constraint is matched the way the code matches it.
\<close>

definition spec_filter ::
  "pylib \<Rightarrow> int \<Rightarrow> int \<Rightarrow> string option \<Rightarrow> string option \<Rightarrow> string option \<Rightarrow> message list
     \<Rightarrow> py_error + message list" where
  "spec_filter lib a b ty au se df =
     (case (case se of
              None \<Rightarrow> Inr (\<lambda>r. True)
            | Some pat \<Rightarrow>
                (case re_compile lib pat of
                   Inl e \<Rightarrow> Inl e
                 | Inr f \<Rightarrow> Inr (\<lambda>r. case content r of None \<Rightarrow> False | Some s \<Rightarrow> f s))) of
        Inl e \<Rightarrow> Inl e
      | Inr sp \<Rightarrow>
          Inr (filter (\<lambda>r. a \<le> ts_date (timestamp r) \<and> ts_date (timestamp r) \<le> b \<and>
                            (case ty of None \<Rightarrow> True | Some t \<Rightarrow> mtype r = t) \<and>
                            (case au of None \<Rightarrow> True | Some x \<Rightarrow> author r = x) \<and> sp r) df))"

text \<open>
  A library that knows nothing outside the strings the model computes. The examples below
  stay within those strings, so they hold for every library.
\<close>

definition no_ext :: pylib where
  "no_ext = \<lparr>to_datetime_ext = (\<lambda>s. None), re_compile_ext = (\<lambda>p. Inl ReError),
              np_round_tie_ext = (\<lambda>x. x), py_round_tie_ext = (\<lambda>x. x)\<rparr>"

subsection \<open>Example inputs\<close>

text \<open>The two records of the spec's example, and the table they normalise to.\<close>

definition example_records :: "raw_message list" where
  "example_records =
     [\<lparr>r_timestamp = JStr ''2024-01-01T10:00:00Z'', r_author = ''A'', r_content = Some ''hi'',
       r_type = JStr ''Default''\<rparr>,
      \<lparr>r_timestamp = JStr ''2024-01-02T10:00:00Z'', r_author = ''B'',
       r_content = Some ''hello there'', r_type = JStr ''Reply''\<rparr>]"

definition example_table :: "message list" where
  "example_table =
     [\<lparr>timestamp = 1704103200000000000, author = ''A'', content = Some ''hi'', mtype = ''Default''\<rparr>,
      \<lparr>timestamp = 1704189600000000000, author = ''B'', content = Some ''hello there'',
       mtype = ''Reply''\<rparr>]"

text \<open>A single row for small runs of the filter.\<close>

definition example_row :: message where
  "example_row = \<lparr>timestamp = 0, author = ''A'', content = Some ''abc'', mtype = ''Default''\<rparr>"

text \<open>An input whose only timestamp cannot be parsed, and one where no record has a type.\<close>

definition unparsable_records :: "raw_message list" where
  "unparsable_records =
     [\<lparr>r_timestamp = JStr ''not-a-date'', r_author = ''A'', r_content = Some ''hi'',
       r_type = JStr ''Default''\<rparr>]"

definition untyped_records :: "raw_message list" where
  "untyped_records =
     [\<lparr>r_timestamp = JStr ''2024-01-01T10:00:00Z'', r_author = ''A'', r_content = Some ''hi'',
       r_type = Absent\<rparr>]"

section \<open>Properties\<close>

subsection \<open>Masks and row selection\<close>

lemma mask_and_map: "mask_and (map P df) (map Q df) = map (\<lambda>r. P r \<and> Q r) df"
  by (induction df) (simp_all add: mask_and_def)

lemma select_rows_map: "select_rows df (map P df) = filter P df"
  by (induction df) (simp_all add: select_rows_def)

lemma mask_df_no_search:
  "search_term spec = [] \<Longrightarrow> mask_df lib spec df = Inr (map (spec_pred spec c) df)"
  by (simp add: mask_df_def Let_def mask_and_map spec_pred_def)

lemma mask_df_search_ok:
  "search_term spec \<noteq> [] \<Longrightarrow> re_compile lib (search_term spec) = Inr f \<Longrightarrow>
   mask_df lib spec df = Inr (map (spec_pred spec f) df)"
  by (simp add: mask_df_def Let_def mask_and_map spec_pred_def str_contains_def comp_def)

lemma mask_df_search_err:
  "search_term spec \<noteq> [] \<Longrightarrow> re_compile lib (search_term spec) = Inl e \<Longrightarrow>
   mask_df lib spec df = Inl e"
  by (simp add: mask_df_def Let_def str_contains_def)

lemma filtered_df_no_search:
  "search_term spec = [] \<Longrightarrow> filtered_df lib spec df = Inr (filter (spec_pred spec c) df)"
  by (simp add: filtered_df_def mask_df_no_search [where c = c] select_rows_map)

lemma filtered_df_search_ok:
  "search_term spec \<noteq> [] \<Longrightarrow> re_compile lib (search_term spec) = Inr f \<Longrightarrow>
   filtered_df lib spec df = Inr (filter (spec_pred spec f) df)"
  by (simp add: filtered_df_def mask_df_search_ok select_rows_map)

lemma filtered_df_search_err:
  "search_term spec \<noteq> [] \<Longrightarrow> re_compile lib (search_term spec) = Inl e \<Longrightarrow>
   filtered_df lib spec df = Inl e"
  by (simp add: filtered_df_def mask_df_search_err)

lemma spec_pred_re_matches:
  "re_compile lib (search_term spec) = Inr f \<Longrightarrow> spec_pred spec (re_matches lib (search_term spec)) = spec_pred spec f"
  by (auto simp: spec_pred_def re_matches_def fun_eq_iff split: option.splits)

lemma filtered_df_Inr:
  assumes "filtered_df lib spec df = Inr fdf"
  shows "fdf = filter (spec_pred spec (re_matches lib (search_term spec))) df"
proof (cases "search_term spec = []")
  case True
  then show ?thesis using assms filtered_df_no_search [where c = "re_matches lib (search_term spec)" and spec = spec and lib = lib and df = df] by simp
next
  case False
  show ?thesis
  proof (cases "re_compile lib (search_term spec)")
    case (Inl e)
    then show ?thesis using assms False by (simp add: filtered_df_search_err)
  next
    case (Inr f)
    then show ?thesis using assms False by (simp add: filtered_df_search_ok spec_pred_re_matches)
  qed
qed

lemma re_plain_not_dot: "re_plain c \<Longrightarrow> c \<noteq> CHR ''.''"
  by (auto simp: re_plain_def re_special_def)

lemma re_match_here_prefix:
  "list_all re_plain pat \<Longrightarrow> re_match_here pat s = prefix (map lower pat) (map lower s)"
  by (induction pat s rule: re_match_here.induct) (auto simp: re_char_match_def re_plain_not_dot)

lemma re_search_sublist:
  "list_all re_plain pat \<Longrightarrow> re_search pat s = sublist (map lower pat) (map lower s)"
  by (induction s) (auto simp: re_match_here_prefix sublist_Cons_right)

lemma re_compile_plain:
  "list_all re_plain pat \<Longrightarrow> re_compile lib pat = Inr (re_search pat)"
  by (cases pat) (auto simp: re_compile_def re_plain_def re_special_def list_all_iff)

lemma re_matches_plain:
  "list_all re_plain pat \<Longrightarrow> re_matches lib pat = spec_contains pat"
  by (simp add: re_matches_def re_compile_plain spec_contains_def re_search_sublist fun_eq_iff)

subsection \<open>Evaluation on concrete inputs\<close>

lemmas eval_filter = filtered_df_def mask_df_def mask_and_def select_rows_def str_contains_def
  re_compile_def re_plain_def re_special_def re_char_match_def lower_def ts_date_def
  ns_per_day_def ns_per_second_def Let_def

lemmas eval_convert = convert_to_df_def has_column_def dropna_def
  List.map_filter_simps to_datetime_def parse_iso8601_def is_letter_def lower_def iso_fields_def iso_shape_def
  num_def digit_val_def iso_instant_def days_in_month_def is_leap_def days_from_civil_def
  ns_per_day_def ns_per_second_def fillna_def Let_def

lemma convert_example: "convert_to_df lib example_records = Inr (Some example_table)"
  by (simp add: eval_convert example_records_def example_table_def)

lemma ts_date_example:
  "ts_date 1704103200000000000 = 19723" "ts_date 1704189600000000000 = 19724"
  by (simp_all add: ts_date_def ns_per_day_def ns_per_second_def)

lemma round1_example: "round1 tie (13 / 2) = 13 / 2" "round1 tie 1 = 1"
  by (simp_all add: round1_def Let_def)

lemma top_stats_example:
  "top_stats lib example_table
     = Inr \<lparr>m_total = 2, m_replies = 1, m_avg_length = Some (13 / 2), m_per_day = 1\<rparr>"
  by (simp add: top_stats_def total_messages_def replies_def avg_length_def messages_per_day_def
      example_table_def List.map_filter_simps ts_date_example round1_example Let_def)

lemma top_stats_empty: "top_stats lib [] = Inl ZeroDivisionError"
  by (simp add: top_stats_def messages_per_day_def)

lemma filtered_df_cases:
  "filtered_df lib spec df =
     (if search_term spec = [] then Inr (filter (spec_pred spec (\<lambda>s. True)) df)
      else case re_compile lib (search_term spec) of
             Inl e \<Rightarrow> Inl e
           | Inr f \<Rightarrow> Inr (filter (spec_pred spec f) df))"
  by (simp add: filtered_df_no_search filtered_df_search_ok filtered_df_search_err split: sum.splits)

lemma spec_pred_inverted: "end_date spec < start_date spec \<Longrightarrow> \<not> spec_pred spec c r"
  by (simp add: spec_pred_def)

lemma dropna_map:
  "dropna (map (\<lambda>r. (g r, r)) data)
     = map (\<lambda>r. (the (g r), r)) (filter (\<lambda>r. g r \<noteq> None) data)"
  by (induction data) (auto simp: dropna_def List.map_filter_simps)

lemma convert_to_df_cases:
  "convert_to_df lib data =
     (if \<not> has_column r_timestamp data \<or> \<not> has_column r_type data then Inl KeyError
      else Inr (Some (map (\<lambda>r. \<lparr>timestamp = the (to_datetime lib (r_timestamp r)),
                                  author = r_author r, content = r_content r,
                                  mtype = fillna ''Default'' (r_type r)\<rparr>)
                        (filter (\<lambda>r. to_datetime lib (r_timestamp r) \<noteq> None) data))))"
  by (simp add: convert_to_df_def dropna_map Let_def comp_def)

lemma dashboard_empty_table:
  assumes "convert_to_df lib data = Inr (Some [])"
  shows "dashboard lib ui data = Inl ValueError"
  using assms
  by (cases "ui_preset ui")
     (simp_all add: dashboard_def preset_dates_def date_input_def min_date_def max_date_def
        minus_days_def date_range_def)

lemma min_max_example: "min_date example_table = Date 19723" "max_date example_table = Date 19724"
  by (simp_all add: min_date_def max_date_def example_table_def ts_date_example)

text \<open>
  The handler of \<^verbatim>\<open>convert_to_df\<close> never reaches its \<^verbatim>\<open>return None\<close>: the only exception of the
  \<^verbatim>\<open>try\<close> block is the \<^verbatim>\<open>KeyError\<close> of a missing timestamp column, which the handler raises
  again when it prints the sample. So the script never stops at \<^verbatim>\<open>st.stop()\<close>.
\<close>

lemma convert_to_df_not_None: "convert_to_df lib data \<noteq> Inr None"
  by (simp add: convert_to_df_cases)

lemma dashboard_not_Stopped: "dashboard lib ui data \<noteq> Inr Stopped"
proof (cases "convert_to_df lib data")
  case (Inl e)
  then show ?thesis by (simp add: dashboard_def)
next
  case (Inr t)
  then obtain df where t: "t = Some df"
    using convert_to_df_not_None [of lib data] by (cases t) auto
  show ?thesis using Inr t
    by (simp add: dashboard_def split: prod.splits sum.splits pdate.splits)
qed

section \<open>The claims\<close>

text \<open>
  C1. When the filtered subset is empty the total count is 0 and the mean content length
  is NaN ("no data"), but messages-per-day is not guarded: \<^verbatim>\<open>len(filtered_df)\<close> divided by
  the number of distinct dates is \<open>0 / 0\<close> and raises \<^verbatim>\<open>ZeroDivisionError\<close>, so the statistics
  row fails for every table and filter whose subset is empty.
\<close>

theorem empty_subset_division_by_zero:
  assumes "filtered_df lib spec df = Inr []"
  shows "total_messages [] = 0 \<and> avg_length lib [] = None \<and>
         messages_per_day lib [] = Inl ZeroDivisionError \<and>
         apply_filters lib spec df = Inl ZeroDivisionError"
  using assms
  by (simp add: total_messages_def avg_length_def messages_per_day_def apply_filters_def
      top_stats_empty List.map_filter_simps)

text \<open>The example table with a search that matches nothing.\<close>

theorem empty_subset_division_by_zero_witness:
  "filtered_df no_ext \<lparr>start_date = 19723, end_date = 19724, selected_type = ''All'',
                       selected_author = ''All'', search_term = ''zzz''\<rparr> example_table = Inr [] \<and>
   apply_filters no_ext \<lparr>start_date = 19723, end_date = 19724, selected_type = ''All'',
                         selected_author = ''All'', search_term = ''zzz''\<rparr> example_table
     = Inl ZeroDivisionError"
proof -
  have h: "filtered_df no_ext \<lparr>start_date = 19723, end_date = 19724, selected_type = ''All'',
             selected_author = ''All'', search_term = ''zzz''\<rparr> example_table = Inr []"
    by (simp add: eval_filter example_table_def)
  show ?thesis using h empty_subset_division_by_zero [OF h] by simp
qed

text \<open>
  C2, as stated, fails: the search string is compiled as a regular expression. With the
  search \<^verbatim>\<open>.\<close> a row whose content is \<^verbatim>\<open>abc\<close> is selected, although \<^verbatim>\<open>abc\<close> does not contain
  a dot.
\<close>

theorem search_is_a_regex_counterexample:
  "filtered_df no_ext \<lparr>start_date = 0, end_date = 0, selected_type = ''All'',
                       selected_author = ''All'', search_term = ''.''\<rparr> [example_row]
     = Inr [example_row] \<and>
   \<not> spec_pred \<lparr>start_date = 0, end_date = 0, selected_type = ''All'',
                 selected_author = ''All'', search_term = ''.''\<rparr> (spec_contains ''.'') example_row"
  by (simp add: eval_filter example_row_def spec_pred_def spec_contains_def sublist_Cons_right)

text \<open>
  C2, amended. When filtering returns, a row is in the filtered subset if and only if it is
  a row of the table, its date lies in the inclusive range, its type and author equal the
  selected ones unless those are \<^verbatim>\<open>All\<close>, and, unless the search string is empty, its
  content is not null and the search string, compiled as a case-insensitive regular
  expression, matches somewhere in it. For a search string of ASCII characters without
  special meaning in a regular expression this is containment, letters in either case.
\<close>

theorem filtered_rows_iff:
  assumes "filtered_df lib spec df = Inr fdf"
  shows "(r \<in> set fdf \<longleftrightarrow>
            r \<in> set df \<and> spec_pred spec (re_matches lib (search_term spec)) r) \<and>
         (list_all re_plain (search_term spec) \<longrightarrow>
            (r \<in> set fdf \<longleftrightarrow> r \<in> set df \<and> spec_pred spec (spec_contains (search_term spec)) r))"
proof -
  have "fdf = filter (spec_pred spec (re_matches lib (search_term spec))) df"
    using assms by (rule filtered_df_Inr)
  then have a: "r \<in> set fdf \<longleftrightarrow> r \<in> set df \<and> spec_pred spec (re_matches lib (search_term spec)) r"
    by simp
  show ?thesis using a by (simp add: re_matches_plain)
qed

text \<open>The example table filtered to the replies of B on 2024-01-02 that contain HELLO.\<close>

theorem filtered_rows_iff_witness:
  "filtered_df no_ext \<lparr>start_date = 19724, end_date = 19724, selected_type = ''Reply'',
                       selected_author = ''B'', search_term = ''HELLO''\<rparr> example_table
     = Inr [example_table ! 1] \<and>
   list_all re_plain ''HELLO'' \<and>
   example_table ! 1 \<in> set example_table \<and>
   spec_pred \<lparr>start_date = 19724, end_date = 19724, selected_type = ''Reply'',
               selected_author = ''B'', search_term = ''HELLO''\<rparr> (spec_contains ''HELLO'')
     (example_table ! 1) \<and>
   \<not> spec_pred \<lparr>start_date = 19724, end_date = 19724, selected_type = ''Reply'',
               selected_author = ''B'', search_term = ''HELLO''\<rparr> (spec_contains ''HELLO'')
     (example_table ! 0)"
proof -
  let ?s = "\<lparr>start_date = 19724, end_date = 19724, selected_type = ''Reply'',
              selected_author = ''B'', search_term = ''HELLO''\<rparr>"
  have h: "filtered_df no_ext ?s example_table = Inr [example_table ! 1]"
    by (simp add: eval_filter example_table_def)
  have p: "list_all re_plain ''HELLO''"
    by (simp add: re_plain_def re_special_def)
  show ?thesis
    using h p filtered_rows_iff [OF h, of "example_table ! 1"] filtered_rows_iff [OF h, of "example_table ! 0"]
    by (simp add: example_table_def)
qed

text \<open>
  C3. The code means to report a sample of the timestamps, return \<^verbatim>\<open>None\<close> and stop the
  session when the timestamp column cannot be converted, but it never does so for
  unparsable timestamps: with \<^verbatim>\<open>errors='coerce'\<close> the conversion does not raise. When some
  record has a timestamp key, some record has a type key and no timestamp of the input can
  be parsed, \<^verbatim>\<open>convert_to_df\<close> returns the empty table, the session goes on with it, and
  the script ends in the uncaught \<^verbatim>\<open>ValueError\<close> of the date range, whatever the user chose
  in the sidebar.
\<close>

theorem unparsable_timestamps_not_reported:
  assumes "has_column r_timestamp data" and "has_column r_type data"
    and "\<forall>r \<in> set data. to_datetime lib (r_timestamp r) = None"
  shows "convert_to_df lib data = Inr (Some []) \<and> dashboard lib ui data = Inl ValueError"
proof -
  have "filter (\<lambda>r. to_datetime lib (r_timestamp r) \<noteq> None) data = []"
    using assms(3) by (simp add: filter_empty_conv)
  then have "convert_to_df lib data = Inr (Some [])"
    using assms(1,2) by (simp add: convert_to_df_cases)
  then show ?thesis by (simp add: dashboard_empty_table)
qed

text \<open>The input with the single timestamp \<^verbatim>\<open>not-a-date\<close>, preset "All time".\<close>

theorem unparsable_timestamps_not_reported_witness:
  "has_column r_timestamp unparsable_records \<and> has_column r_type unparsable_records \<and>
   list_all (\<lambda>r. to_datetime no_ext (r_timestamp r) = None) unparsable_records \<and>
   convert_to_df no_ext unparsable_records = Inr (Some []) \<and>
   dashboard no_ext \<lparr>ui_preset = AllTime, custom_start = 0, custom_end = 0, ui_type = ''All'',
                      ui_author = ''All'', ui_search = []\<rparr> unparsable_records = Inl ValueError"
proof -
  have a: "has_column r_timestamp unparsable_records"
    by (simp add: has_column_def unparsable_records_def)
  have b: "has_column r_type unparsable_records"
    by (simp add: has_column_def unparsable_records_def)
  have c: "\<forall>r \<in> set unparsable_records. to_datetime no_ext (r_timestamp r) = None"
    by (simp add: unparsable_records_def to_datetime_def parse_iso8601_def is_letter_def lower_def)
  show ?thesis
    using a b c
      unparsable_timestamps_not_reported [OF a b c, of "\<lparr>ui_preset = AllTime, custom_start = 0,
        custom_end = 0, ui_type = ''All'', ui_author = ''All'', ui_search = []\<rparr>"]
    by (simp add: list_all_iff)
qed

text \<open>
  C4. Normalization is to replace every missing type with \<^verbatim>\<open>Default\<close>. When no record of
  the input has a type key the data frame has no \<^verbatim>\<open>type\<close> column, and \<^verbatim>\<open>df['type']\<close> raises
  \<^verbatim>\<open>KeyError\<close> instead; so does \<^verbatim>\<open>df['timestamp']\<close> on the empty input. (Where the function
  returns, its table is the one \<open>convert_to_df_cases\<close> gives: the rows whose timestamp
  parses, in order, each with its instant and a type that is never null.)
\<close>

theorem missing_type_column_raises:
  "convert_to_df lib untyped_records = Inl KeyError \<and> convert_to_df lib [] = Inl KeyError"
  by (simp add: eval_convert untyped_records_def)

text \<open>
  C5. The two records of the spec's example normalise to the two-row table, and filtering
  that table with any date range that covers 2024-01-01 (day 19723) and 2024-01-02
  (day 19724) and no other constraint gives both rows, total count 2, reply count 1, mean
  content length 6.5 and messages-per-day 1.0; so does the whole script with the preset
  "All time".
\<close>

theorem spec_example_metrics:
  assumes "a \<le> 19723" and "19724 \<le> b"
  shows "convert_to_df lib example_records = Inr (Some example_table) \<and>
         apply_filters lib \<lparr>start_date = a, end_date = b, selected_type = ''All'',
                             selected_author = ''All'', search_term = []\<rparr> example_table
           = Inr (example_table,
                  \<lparr>m_total = 2, m_replies = 1, m_avg_length = Some (13 / 2), m_per_day = 1\<rparr>) \<and>
         dashboard lib \<lparr>ui_preset = AllTime, custom_start = a, custom_end = b, ui_type = ''All'',
                         ui_author = ''All'', ui_search = []\<rparr> example_records
           = Inr (Rendered example_table
                  \<lparr>m_total = 2, m_replies = 1, m_avg_length = Some (13 / 2), m_per_day = 1\<rparr>)"
proof -
  have all: "filtered_df lib \<lparr>start_date = c, end_date = d, selected_type = ''All'',
               selected_author = ''All'', search_term = []\<rparr> example_table = Inr example_table"
    if "c \<le> 19723" and "19724 \<le> d" for c d
  proof -
    let ?s = "\<lparr>start_date = c, end_date = d, selected_type = ''All'', selected_author = ''All'',
                search_term = []\<rparr>"
    have "filtered_df lib ?s example_table = Inr (filter (spec_pred ?s (\<lambda>s. True)) example_table)"
      by (rule filtered_df_no_search) simp
    also have "filter (spec_pred ?s (\<lambda>s. True)) example_table = example_table"
      using that by (simp add: spec_pred_def example_table_def ts_date_example)
    finally show ?thesis .
  qed
  have conv: "convert_to_df lib example_records = Inr (Some example_table)"
    by (rule convert_example)
  have app: "apply_filters lib \<lparr>start_date = c, end_date = d, selected_type = ''All'',
               selected_author = ''All'', search_term = []\<rparr> example_table
             = Inr (example_table,
                    \<lparr>m_total = 2, m_replies = 1, m_avg_length = Some (13 / 2), m_per_day = 1\<rparr>)"
    if "c \<le> 19723" and "19724 \<le> d" for c d
    using all [OF that] by (simp add: apply_filters_def top_stats_example)
  have dash: "dashboard lib \<lparr>ui_preset = AllTime, custom_start = a, custom_end = b,
                ui_type = ''All'', ui_author = ''All'', ui_search = []\<rparr> example_records
              = Inr (Rendered example_table
                     \<lparr>m_total = 2, m_replies = 1, m_avg_length = Some (13 / 2), m_per_day = 1\<rparr>)"
    using app [of 19723 19724]
    by (simp add: dashboard_def conv preset_dates_def min_max_example date_range_def)
  show ?thesis using conv app [OF assms] dash by blast
qed

text \<open>The range from 2024-01-01 to 2024-01-02.\<close>

theorem spec_example_metrics_witness:
  "(19723 :: int) \<le> 19723 \<and> (19724 :: int) \<le> 19724 \<and>
   convert_to_df no_ext example_records = Inr (Some example_table) \<and>
   apply_filters no_ext \<lparr>start_date = 19723, end_date = 19724, selected_type = ''All'',
                         selected_author = ''All'', search_term = []\<rparr> example_table
     = Inr (example_table,
            \<lparr>m_total = 2, m_replies = 1, m_avg_length = Some (13 / 2), m_per_day = 1\<rparr>)"
proof -
  have a: "(19723 :: int) \<le> 19723" and b: "(19724 :: int) \<le> 19724" by simp_all
  show ?thesis
    using spec_example_metrics [OF a b, of no_ext] by simp
qed

text \<open>
  C6. The pipeline is a function of the library, the table and the FilterSpec alone, so
  computing it again gives the same result. Applying the same FilterSpec to the filtered
  subset gives that subset again, with the same aggregates (or the same exception from the
  statistics row).
\<close>

theorem filtering_idempotent:
  assumes "filtered_df lib spec df = Inr fdf"
  shows "filtered_df lib spec fdf = Inr fdf \<and>
         apply_filters lib spec fdf = apply_filters lib spec df"
proof -
  have "filtered_df lib spec fdf = Inr fdf"
    using assms by (auto simp: filtered_df_cases split: if_splits sum.splits)
  then show ?thesis using assms by (simp add: apply_filters_def)
qed

text \<open>The replies of the example table that contain \<^verbatim>\<open>hello\<close>, filtered once more.\<close>

theorem filtering_idempotent_witness:
  "filtered_df no_ext \<lparr>start_date = 19723, end_date = 19724, selected_type = ''Reply'',
                       selected_author = ''All'', search_term = ''hello''\<rparr> example_table
     = Inr [example_table ! 1] \<and>
   filtered_df no_ext \<lparr>start_date = 19723, end_date = 19724, selected_type = ''Reply'',
                       selected_author = ''All'', search_term = ''hello''\<rparr> [example_table ! 1]
     = Inr [example_table ! 1]"
proof -
  have h: "filtered_df no_ext \<lparr>start_date = 19723, end_date = 19724, selected_type = ''Reply'',
             selected_author = ''All'', search_term = ''hello''\<rparr> example_table
           = Inr [example_table ! 1]"
    by (simp add: eval_filter example_table_def)
  show ?thesis using h filtering_idempotent [OF h] by simp
qed

text \<open>
  C7. The code's filter is the spec's filter in which the type constraint is left out when
  the selected type is \<^verbatim>\<open>All\<close>, the author constraint is left out when the selected author
  is \<^verbatim>\<open>All\<close>, and the search constraint is left out when the search string is empty.
\<close>

theorem all_and_empty_search_omit_the_predicate:
  "filtered_df lib spec df =
     spec_filter lib (start_date spec) (end_date spec)
       (if selected_type spec = ''All'' then None else Some (selected_type spec))
       (if selected_author spec = ''All'' then None else Some (selected_author spec))
       (if search_term spec = [] then None else Some (search_term spec)) df"
  by (auto simp: filtered_df_cases spec_filter_def spec_pred_def split: sum.splits
           intro!: filter_cong)

text \<open>The example table on 2024-01-02 with \<^verbatim>\<open>All\<close>, \<^verbatim>\<open>All\<close> and no search.\<close>

theorem all_and_empty_search_omit_the_predicate_witness:
  "filtered_df no_ext \<lparr>start_date = 19724, end_date = 19724, selected_type = ''All'',
                       selected_author = ''All'', search_term = []\<rparr> example_table
     = spec_filter no_ext 19724 19724 None None None example_table \<and>
   spec_filter no_ext 19724 19724 None None None example_table = Inr [example_table ! 1]"
  using all_and_empty_search_omit_the_predicate
          [of no_ext "\<lparr>start_date = 19724, end_date = 19724, selected_type = ''All'',
                        selected_author = ''All'', search_term = []\<rparr>" example_table]
  by (simp add: spec_filter_def example_table_def ts_date_example)

text \<open>
  C8. With an inverted date range (start after end) the date range is not checked and the
  mask step selects no row, but the result is not an empty result without an error: the
  statistics row divides by the number of distinct dates of the empty subset, so the
  pipeline raises on every inverted range (\<^verbatim>\<open>ZeroDivisionError\<close>, the fault of C1, when the
  filter step returns).
\<close>

theorem inverted_range_raises:
  assumes "end_date spec < start_date spec"
  shows "(\<exists>e. apply_filters lib spec df = Inl e) \<and>
         (\<forall>fdf. filtered_df lib spec df = Inr fdf \<longrightarrow>
                fdf = [] \<and> apply_filters lib spec df = Inl ZeroDivisionError) \<and>
         (search_term spec = [] \<longrightarrow> filtered_df lib spec df = Inr []) \<and>
         date_range (Date (start_date spec)) (Date (end_date spec)) = Inr 0"
proof -
  have e: "fdf = []" if "filtered_df lib spec df = Inr fdf" for fdf
    using that assms
    by (auto simp: filtered_df_cases spec_pred_inverted split: if_splits sum.splits)
  have z: "apply_filters lib spec df = Inl ZeroDivisionError"
    if "filtered_df lib spec df = Inr fdf" for fdf
    using that e [OF that] by (simp add: apply_filters_def top_stats_empty)
  have x: "\<exists>err. apply_filters lib spec df = Inl err"
  proof (cases "filtered_df lib spec df")
    case (Inl err)
    then show ?thesis by (simp add: apply_filters_def)
  next
    case (Inr fdf)
    then show ?thesis using z by blast
  qed
  have n: "search_term spec = [] \<longrightarrow> filtered_df lib spec df = Inr []"
    using assms by (simp add: filtered_df_cases spec_pred_inverted)
  have d: "date_range (Date (start_date spec)) (Date (end_date spec)) = Inr 0"
    using assms by (simp add: date_range_def)
  show ?thesis using x e z n d by blast
qed

text \<open>
  The example table from 2024-01-02 back to 2024-01-01 with no other constraint, as the
  filter step and as the whole script with the preset "Custom".
\<close>

theorem inverted_range_raises_witness:
  "(19723 :: int) < 19724 \<and>
   filtered_df no_ext \<lparr>start_date = 19724, end_date = 19723, selected_type = ''All'',
                       selected_author = ''All'', search_term = []\<rparr> example_table = Inr [] \<and>
   apply_filters no_ext \<lparr>start_date = 19724, end_date = 19723, selected_type = ''All'',
                         selected_author = ''All'', search_term = []\<rparr> example_table
     = Inl ZeroDivisionError \<and>
   dashboard no_ext \<lparr>ui_preset = Custom, custom_start = 19724, custom_end = 19723,
                      ui_type = ''All'', ui_author = ''All'', ui_search = []\<rparr> example_records
     = Inl ZeroDivisionError"
proof -
  let ?s = "\<lparr>start_date = 19724, end_date = 19723, selected_type = ''All'',
              selected_author = ''All'', search_term = []\<rparr>"
  have h: "end_date ?s < start_date ?s"
    by simp
  have f: "filtered_df no_ext ?s example_table = Inr []"
    using inverted_range_raises [OF h, of no_ext example_table] by simp
  have a: "apply_filters no_ext ?s example_table = Inl ZeroDivisionError"
    using inverted_range_raises [OF h, of no_ext example_table] f by blast
  have d: "dashboard no_ext \<lparr>ui_preset = Custom, custom_start = 19724, custom_end = 19723,
             ui_type = ''All'', ui_author = ''All'', ui_search = []\<rparr> example_records
           = Inl ZeroDivisionError"
    using a
    by (simp add: dashboard_def convert_example preset_dates_def date_input_def min_max_example
        date_range_def)
  show ?thesis using f a d by simp
qed

text \<open>
  C9, as stated, fails in where the fault is: on an empty table the minimum and maximum
  dates are computed without a fault (both are NaT, and so are the start and end of the
  default preset); what raises is the date range built from them.
\<close>

theorem min_max_of_empty_counterexample:
  "min_date [] = NaT \<and> max_date [] = NaT \<and>
   preset_dates \<lparr>ui_preset = AllTime, custom_start = 0, custom_end = 0, ui_type = ''All'',
                  ui_author = ''All'', ui_search = []\<rparr> (min_date []) (max_date []) = Inr (NaT, NaT) \<and>
   date_range NaT NaT = Inl ValueError"
  by (simp add: min_date_def max_date_def preset_dates_def date_range_def)

text \<open>
  C9, amended. If normalization returns the empty table, the script faults before it
  shows any statistics: with every preset but "Custom" at the date range, whose end
  points are NaT (\<^verbatim>\<open>ValueError\<close>). The table after normalization has to be non-empty.
\<close>

theorem empty_table_faults:
  assumes "convert_to_df lib data = Inr (Some [])"
  shows "(\<exists>e. dashboard lib ui data = Inl e) \<and>
         (ui_preset ui \<noteq> Custom \<longrightarrow> dashboard lib ui data = Inl ValueError)"
  using assms
  by (cases "ui_preset ui") (auto simp: dashboard_empty_table split: sum.splits)

text \<open>The input with the single timestamp \<^verbatim>\<open>not-a-date\<close>, preset "Last 7 days".\<close>

theorem empty_table_faults_witness:
  "convert_to_df no_ext unparsable_records = Inr (Some []) \<and>
   dashboard no_ext \<lparr>ui_preset = Last7, custom_start = 0, custom_end = 0, ui_type = ''All'',
                      ui_author = ''All'', ui_search = []\<rparr> unparsable_records = Inl ValueError"
proof -
  have h: "convert_to_df no_ext unparsable_records = Inr (Some [])"
    by (simp add: eval_convert unparsable_records_def)
  show ?thesis
    using h empty_table_faults [OF h, of "\<lparr>ui_preset = Last7, custom_start = 0, custom_end = 0,
             ui_type = ''All'', ui_author = ''All'', ui_search = []\<rparr>"]
    by simp
qed

text \<open>
  C10. When filtering returns, the filtered subset is a subsequence of the table: the rows
  at the positions where the predicate holds, each position taken once, in the order of
  the table. The table is a value of the model and is not changed.
\<close>

theorem filtered_is_subsequence:
  assumes "filtered_df lib spec df = Inr fdf"
  shows "subseq fdf df \<and>
         fdf = nths df {i. i < length df \<and> spec_pred spec (re_matches lib (search_term spec)) (df ! i)}"
proof -
  have f: "fdf = filter (spec_pred spec (re_matches lib (search_term spec))) df"
    using assms by (rule filtered_df_Inr)
  have "subseq fdf df"
    unfolding f by (rule subseq_filter_left)
  moreover have "fdf = nths df {i. i < length df \<and> spec_pred spec (re_matches lib (search_term spec)) (df ! i)}"
    unfolding f by (rule filter_eq_nths)
  ultimately show ?thesis by blast
qed

text \<open>The example table filtered to 2024-01-02.\<close>

theorem filtered_is_subsequence_witness:
  "filtered_df no_ext \<lparr>start_date = 19724, end_date = 19724, selected_type = ''All'',
                       selected_author = ''All'', search_term = []\<rparr> example_table
     = Inr [example_table ! 1] \<and>
   subseq [example_table ! 1] example_table"
proof -
  have h: "filtered_df no_ext \<lparr>start_date = 19724, end_date = 19724, selected_type = ''All'',
             selected_author = ''All'', search_term = []\<rparr> example_table = Inr [example_table ! 1]"
    by (simp add: eval_filter example_table_def)
  from filtered_is_subsequence [OF h] have "subseq [example_table ! 1] example_table"
    by (rule conjunct1)
  with h show ?thesis by blast
qed

end
